theory Spec2Isabelle
  imports Complex_Main
begin

section \<open>Tensor values\<close>

text \<open>
  The PPO controller of \<^verbatim>\<open>PPO/PPO.py\<close> computes on float tensors. The model keeps the
  two things the controller's behaviour depends on: the shape rules of the tensor library
  (stacking, squeezing, broadcasting, the empty-list errors) and the propagation of NaN.
  A tensor element is either a real number or NaN; rounding and infinities are not
  modelled, so every finite computation is the exact real one.
\<close>

datatype tfloat = Val real | NaN

fun fadd :: "tfloat \<Rightarrow> tfloat \<Rightarrow> tfloat" where
  "fadd (Val x) (Val y) = Val (x + y)"
| "fadd _ _ = NaN"

fun fsub :: "tfloat \<Rightarrow> tfloat \<Rightarrow> tfloat" where
  "fsub (Val x) (Val y) = Val (x - y)"
| "fsub _ _ = NaN"

fun fmul :: "tfloat \<Rightarrow> tfloat \<Rightarrow> tfloat" where
  "fmul (Val x) (Val y) = Val (x * y)"
| "fmul _ _ = NaN"

text \<open>
  Division by zero gives an infinity or NaN in IEEE arithmetic; the model has no infinity
  and returns NaN there. No divisor of the controller is zero: the only division is by a
  standard deviation plus \<open>1e-8\<close>.
\<close>

fun fdiv :: "tfloat \<Rightarrow> tfloat \<Rightarrow> tfloat" where
  "fdiv (Val x) (Val y) = (if y = 0 then NaN else Val (x / y))"
| "fdiv _ _ = NaN"

fun fneg :: "tfloat \<Rightarrow> tfloat" where
  "fneg (Val x) = Val (- x)"
| "fneg NaN = NaN"

fun fexp :: "tfloat \<Rightarrow> tfloat" where
  "fexp (Val x) = Val (exp x)"
| "fexp NaN = NaN"

text \<open>\<^verbatim>\<open>torch.min(a, b)\<close>, elementwise: NaN if either argument is NaN.\<close>

fun fmin :: "tfloat \<Rightarrow> tfloat \<Rightarrow> tfloat" where
  "fmin (Val x) (Val y) = Val (min x y)"
| "fmin _ _ = NaN"

text \<open>\<^verbatim>\<open>torch.clamp(x, lo, hi)\<close> is \<open>min (max x lo) hi\<close>, and NaN stays NaN.\<close>

fun fclamp :: "real \<Rightarrow> real \<Rightarrow> tfloat \<Rightarrow> tfloat" where
  "fclamp lo hi (Val x) = Val (min (max x lo) hi)"
| "fclamp lo hi NaN = NaN"

text \<open>The real elements of a one-dimensional tensor, or \<open>None\<close> when one of them is NaN.\<close>

fun finite_vals :: "tfloat list \<Rightarrow> real list option" where
  "finite_vals [] = Some []"
| "finite_vals (NaN # ts) = None"
| "finite_vals (Val x # ts) = (case finite_vals ts of None \<Rightarrow> None | Some xs \<Rightarrow> Some (x # xs))"

text \<open>
  \<^verbatim>\<open>Tensor.mean()\<close>: the mean of no element is NaN (0 / 0), and NaN propagates.
\<close>

definition tmean :: "tfloat list \<Rightarrow> tfloat" where
  "tmean ts =
     (case finite_vals ts of
        None \<Rightarrow> NaN
      | Some xs \<Rightarrow> if xs = [] then NaN else Val (sum_list xs / real (length xs)))"

text \<open>
  \<^verbatim>\<open>Tensor.std()\<close> is the sample standard deviation with Bessel's correction: the squared
  deviations are divided by \<open>n - 1\<close>. With fewer than two elements the degrees of freedom
  are not positive and the result is NaN (the library only warns).
\<close>

definition tstd :: "tfloat list \<Rightarrow> tfloat" where
  "tstd ts =
     (case finite_vals ts of
        None \<Rightarrow> NaN
      | Some xs \<Rightarrow>
          if length xs \<le> 1 then NaN
          else (let mu = sum_list xs / real (length xs)
                in Val (sqrt (sum_list (map (\<lambda>x. (x - mu)\<^sup>2) xs) / real (length xs - 1)))))"

subsection \<open>Shapes\<close>

text \<open>
  Actions are kept with their shape, since \<^verbatim>\<open>update\<close> stacks and squeezes them: a tensor is
  its shape and its elements in row-major order.
\<close>

record 'a tensor =
  shape :: "nat list"
  elems :: "'a list"

text \<open>The tensor library raises \<^verbatim>\<open>RuntimeError\<close> in each of these cases.\<close>

datatype error =
    EmptyTensorList   \<comment> \<open>\<^verbatim>\<open>torch.cat\<close> or \<^verbatim>\<open>torch.stack\<close> of an empty list\<close>
  | StackShapeMismatch   \<comment> \<open>\<^verbatim>\<open>torch.stack\<close> of tensors of different shapes\<close>
  | BroadcastMismatch   \<comment> \<open>an elementwise operation on shapes that do not broadcast\<close>

text \<open>
  \<^verbatim>\<open>torch.stack(ts)\<close>: a new leading dimension of size \<open>length ts\<close>; all tensors must have
  the shape of the first one.
\<close>

definition stack :: "'a tensor list \<Rightarrow> error + 'a tensor" where
  "stack ts =
     (case ts of
        [] \<Rightarrow> Inl EmptyTensorList
      | t # _ \<Rightarrow>
          if list_all (\<lambda>u. shape u = shape t) ts
          then Inr \<lparr>shape = length ts # shape t, elems = concat (map elems ts)\<rparr>
          else Inl StackShapeMismatch)"

text \<open>\<^verbatim>\<open>Tensor.squeeze()\<close> removes every dimension of size 1.\<close>

definition squeeze :: "'a tensor \<Rightarrow> 'a tensor" where
  "squeeze t = t\<lparr>shape := filter (\<lambda>d. d \<noteq> 1) (shape t)\<rparr>"

text \<open>
  \<^verbatim>\<open>torch.cat(states, 0)\<close> raises on an empty list. The concatenated batch of states is
  only ever handed to \<^verbatim>\<open>evaluate\<close>, so the model keeps it as the list of the stored states.
\<close>

definition cat0 :: "'s list \<Rightarrow> error + 's list" where
  "cat0 xs = (if xs = [] then Inl EmptyTensorList else Inr xs)"

text \<open>
  Stacking the stored log-probabilities, each a scalar, gives a one-dimensional tensor.
\<close>

definition stack_scalars :: "tfloat list \<Rightarrow> error + tfloat list" where
  "stack_scalars xs = (if xs = [] then Inl EmptyTensorList else Inr xs)"

text \<open>
  An elementwise binary operation on two one-dimensional tensors, with broadcasting: equal
  lengths pair up, a tensor of length one is repeated, anything else raises.
\<close>

definition broadcast2 ::
  "(tfloat \<Rightarrow> tfloat \<Rightarrow> tfloat) \<Rightarrow> tfloat list \<Rightarrow> tfloat list \<Rightarrow> error + tfloat list" where
  "broadcast2 f xs ys =
     (if length xs = length ys then Inr (map2 f xs ys)
      else if length xs = 1 then Inr (map (f (hd xs)) ys)
      else if length ys = 1 then Inr (map (\<lambda>x. f x (hd ys)) xs)
      else Inl BroadcastMismatch)"

section \<open>Memory and the controller\<close>

text \<open>
  Modelled from the spec: the class \<^verbatim>\<open>Memory\<close> of \<^verbatim>\<open>PPO/ActorCritic.py\<close>, which is not part of
  the sources at hand. It holds five parallel sequences, named as \<^verbatim>\<open>PPO.py\<close> and the tests
  read them, and \<^verbatim>\<open>clear()\<close> empties all of them.
\<close>

record ('s, 'a) memory =
  states :: "'s list"
  actions :: "'a tensor list"
  logprobs :: "tfloat list"
  rewards :: "real list"
  is_terminals :: "bool list"

definition empty_memory :: "('s, 'a) memory" where
  "empty_memory = \<lparr>states = [], actions = [], logprobs = [], rewards = [], is_terminals = []\<rparr>"

text \<open>Modelled from the spec: \<^verbatim>\<open>Memory.clear()\<close>, "empty all sequences".\<close>

definition clear :: "('s, 'a) memory \<Rightarrow> ('s, 'a) memory" where
  "clear m = m\<lparr>states := [], actions := [], logprobs := [], rewards := [], is_terminals := []\<rparr>"

text \<open>
  The controller \<^verbatim>\<open>PPO\<close>: \<open>'p\<close> is a parameter set of an \<^verbatim>\<open>ActorCritic\<close>, \<open>'o\<close> the state of the
  Adam optimizer bound to the current policy.
\<close>

record ('p, 'o, 's, 'a) ppo =
  gamma :: real
  eps_clip :: real
  K_epochs :: int
  policy :: 'p
  policy_old :: 'p
  optimizer :: 'o
  memory :: "('s, 'a) memory"

section \<open>Return computation\<close>

text \<open>
  The loop of \<^verbatim>\<open>_compute_returns\<close> over the reversed, zipped rewards and terminal flags:
  \<open>discounted\<close> is the running total, \<open>acc\<close> the list built by \<^verbatim>\<open>rewards.insert(0, _)\<close>.
\<close>

fun discount_loop :: "real \<Rightarrow> (real \<times> bool) list \<Rightarrow> real \<Rightarrow> real list \<Rightarrow> real list" where
  "discount_loop g [] discounted acc = acc"
| "discount_loop g ((reward, done) # rest) discounted acc =
     (let d0 = (if done then 0 else discounted);
          d1 = reward + g * d0
      in discount_loop g rest d1 (d1 # acc))"

definition discounted_returns :: "real \<Rightarrow> real list \<Rightarrow> bool list \<Rightarrow> real list" where
  "discounted_returns g rs ds = discount_loop g (zip (rev rs) (rev ds)) 0 []"

text \<open>
  \<^verbatim>\<open>(rewards - rewards.mean()) / (rewards.std() + 1e-8)\<close>: the mean and the deviation are
  scalars, broadcast over the tensor.
\<close>

definition normalize_returns :: "tfloat list \<Rightarrow> tfloat list" where
  "normalize_returns ts =
     map (\<lambda>t. fdiv (fsub t (tmean ts)) (fadd (tstd ts) (Val (1 / 10 ^ 8)))) ts"

definition compute_returns :: "('p, 'o, 's, 'a) ppo \<Rightarrow> tfloat list" where
  "compute_returns c =
     normalize_returns (map Val (discounted_returns (gamma c) (rewards (memory c)) (is_terminals (memory c))))"

section \<open>The two policies\<close>

text \<open>
  The class \<^verbatim>\<open>ActorCritic\<close> is not part of the sources at hand, so its two methods are
  parameters of the controller's operations. \<^verbatim>\<open>act\<close> reads a parameter set, a state, the
  Memory it records into and the random generator it samples with, and returns the action,
  the Memory and the generator. \<^verbatim>\<open>evaluate\<close> reads a parameter set, the batch of states and
  the batch of actions and returns the log-probabilities, the state values and the
  entropies, each a one-dimensional tensor.
\<close>

type_synonym ('p, 's, 'a, 'g) act_fn =
  "'p \<Rightarrow> 's \<Rightarrow> ('s, 'a) memory \<Rightarrow> 'g \<Rightarrow> 'a tensor \<times> ('s, 'a) memory \<times> 'g"

type_synonym ('p, 's, 'a) evaluate_fn =
  "'p \<Rightarrow> 's list \<Rightarrow> 'a tensor \<Rightarrow> tfloat list \<times> tfloat list \<times> tfloat list"

text \<open>
  Modelled from the spec: \<^verbatim>\<open>ActorCritic.act\<close>, which samples one action from the
  distribution of the given parameters and appends the state, the action and its
  log-probability to Memory. The sampling itself is the parameter \<open>sample\<close>.
\<close>

definition act ::
  "('p \<Rightarrow> 's \<Rightarrow> 'g \<Rightarrow> ('a tensor \<times> tfloat) \<times> 'g) \<Rightarrow> ('p, 's, 'a, 'g) act_fn" where
  "act sample p state m g =
     (case sample p state g of
        ((action, logprob), g') \<Rightarrow>
          (action,
           m\<lparr>states := states m @ [state],
             actions := actions m @ [action],
             logprobs := logprobs m @ [logprob]\<rparr>,
           g'))"

text \<open>
  \<^verbatim>\<open>state_dict()\<close> reads all parameters of a module and \<^verbatim>\<open>load_state_dict\<close> overwrites all
  parameters of the target module with them.
\<close>

definition state_dict :: "'p \<Rightarrow> 'p" where
  "state_dict p = p"

definition load_state_dict :: "'p \<Rightarrow> 'p \<Rightarrow> 'p" where
  "load_state_dict target sd = sd"

text \<open>
  \<^verbatim>\<open>PPO.__init__\<close>: \<open>fresh\<close> and \<open>fresh_old\<close> are the two freshly initialised networks,
  \<open>make_optimizer\<close> is \<^verbatim>\<open>torch.optim.Adam\<close> with the learning rate and the betas.
\<close>

definition ppo_init ::
  "'p \<Rightarrow> 'p \<Rightarrow> ('p \<Rightarrow> 'o) \<Rightarrow> real \<Rightarrow> int \<Rightarrow> real \<Rightarrow> ('p, 'o, 's, 'a) ppo" where
  "ppo_init fresh fresh_old make_optimizer gamma0 K eps =
     \<lparr>gamma = gamma0, eps_clip = eps, K_epochs = K,
      policy = fresh,
      policy_old = load_state_dict fresh_old (state_dict fresh),
      optimizer = make_optimizer fresh,
      memory = empty_memory\<rparr>"

text \<open>\<^verbatim>\<open>PPO.select_action\<close>: the call of the old policy's \<^verbatim>\<open>act\<close> on the shared Memory.\<close>

definition select_action ::
  "('p, 's, 'a, 'g) act_fn \<Rightarrow> ('p, 'o, 's, 'a) ppo \<Rightarrow> 's \<Rightarrow> 'g
     \<Rightarrow> 'a tensor \<times> ('p, 'o, 's, 'a) ppo \<times> 'g" where
  "select_action act_old c state g =
     (case act_old (policy_old c) state (memory c) g of
        (action, m', g') \<Rightarrow> (action, c\<lparr>memory := m'\<rparr>, g'))"

text \<open>
  The driver appends the reward and the terminal flag to the shared Memory itself, as the
  test does: \<^verbatim>\<open>algo.memory.rewards.append(1.0); algo.memory.is_terminals.append(True)\<close>.
\<close>

definition append_outcome ::
  "real \<Rightarrow> bool \<Rightarrow> ('p, 'o, 's, 'a) ppo \<Rightarrow> ('p, 'o, 's, 'a) ppo" where
  "append_outcome r d c =
     c\<lparr>memory := (memory c)\<lparr>rewards := rewards (memory c) @ [r],
                            is_terminals := is_terminals (memory c) @ [d]\<rparr>\<rparr>"

text \<open>The collecting phase between two updates is a sequence of these two steps.\<close>

datatype 's collect_step = Select 's | Outcome real bool

fun collect ::
  "('p, 's, 'a, 'g) act_fn \<Rightarrow> 's collect_step list \<Rightarrow> ('p, 'o, 's, 'a) ppo \<times> 'g
     \<Rightarrow> ('p, 'o, 's, 'a) ppo \<times> 'g" where
  "collect act_old [] (c, g) = (c, g)"
| "collect act_old (Select state # steps) (c, g) =
     (case select_action act_old c state g of (_, c', g') \<Rightarrow> collect act_old steps (c', g'))"
| "collect act_old (Outcome r d # steps) (c, g) =
     collect act_old steps (append_outcome r d c, g)"

section \<open>The update\<close>

text \<open>The tensors \<^verbatim>\<open>update\<close> builds before its loop.\<close>

record ('s, 'a) batch =
  returns :: "tfloat list"
  old_states :: "'s list"
  old_actions :: "'a tensor"
  old_logprobs :: "tfloat list"

definition stacked_batch :: "('p, 'o, 's, 'a) ppo \<Rightarrow> error + ('s, 'a) batch" where
  "stacked_batch c =
     (let rets = compute_returns c in
      case cat0 (states (memory c)) of
        Inl e \<Rightarrow> Inl e
      | Inr sts \<Rightarrow>
          (case stack (actions (memory c)) of
             Inl e \<Rightarrow> Inl e
           | Inr acts \<Rightarrow>
               (case stack_scalars (logprobs (memory c)) of
                  Inl e \<Rightarrow> Inl e
                | Inr lps \<Rightarrow>
                    Inr \<lparr>returns = rets, old_states = sts,
                         old_actions = squeeze acts, old_logprobs = lps\<rparr>)))"

text \<open>
  One term of \<^verbatim>\<open>torch.min(surr1, surr2)\<close>, where \<^verbatim>\<open>surr1 = ratios * advantages\<close> and
  \<^verbatim>\<open>surr2 = torch.clamp(ratios, 1 - eps_clip, 1 + eps_clip) * advantages\<close>.
\<close>

definition surrogate :: "real \<Rightarrow> tfloat \<Rightarrow> tfloat \<Rightarrow> tfloat" where
  "surrogate eps ratio advantage =
     fmin (fmul ratio advantage) (fmul (fclamp (1 - eps) (1 + eps) ratio) advantage)"

text \<open>\<^verbatim>\<open>nn.MSELoss()\<close>: the mean of the squared differences, after broadcasting.\<close>

definition mse :: "tfloat list \<Rightarrow> tfloat list \<Rightarrow> error + tfloat" where
  "mse input target =
     (case broadcast2 fsub input target of
        Inl e \<Rightarrow> Inl e
      | Inr d \<Rightarrow> Inr (tmean (map (\<lambda>t. fmul t t) d)))"

text \<open>
  The forward pass of one epoch. The loss is a function of the parameters \<open>p\<close> the
  gradient is taken at; \<^verbatim>\<open>state_values.detach()\<close> is a constant of that function, the state
  values at the parameters \<open>p0\<close> the epoch started with. The stored log-probabilities are
  constants as well. The result is the tensor \<^verbatim>\<open>advantages\<close> and the loss.
\<close>

definition forward ::
  "('p, 's, 'a) evaluate_fn \<Rightarrow> real \<Rightarrow> ('s, 'a) batch \<Rightarrow> 'p \<Rightarrow> 'p
     \<Rightarrow> error + (tfloat list \<times> tfloat)" where
  "forward evaluate eps b p0 p =
     (case evaluate p (old_states b) (old_actions b) of
        (lps, state_values, dist_entropy) \<Rightarrow>
     (case evaluate p0 (old_states b) (old_actions b) of
        (_, detached_values, _) \<Rightarrow>
     (case broadcast2 fsub lps (old_logprobs b) of
        Inl e \<Rightarrow> Inl e
      | Inr diff \<Rightarrow>
     (let ratios = map fexp diff in
      case broadcast2 fsub (returns b) detached_values of
        Inl e \<Rightarrow> Inl e
      | Inr advantages \<Rightarrow>
     (case broadcast2 (surrogate eps) ratios advantages of
        Inl e \<Rightarrow> Inl e
      | Inr surr \<Rightarrow>
     (let actor_loss = fneg (tmean surr) in
      case mse state_values (returns b) of
        Inl e \<Rightarrow> Inl e
      | Inr critic_loss \<Rightarrow>
     (let entropy_loss = fneg (tmean dist_entropy)
      in Inr (advantages,
              fadd (fadd actor_loss (fmul (Val (1 / 2)) critic_loss))
                   (fmul (Val (1 / 100)) entropy_loss)))))))))"

text \<open>
  \<^verbatim>\<open>zero_grad\<close>, \<^verbatim>\<open>backward\<close>, \<^verbatim>\<open>clip_grad_norm_\<close> and \<^verbatim>\<open>optimizer.step\<close> together are a
  function of the loss (as a function of the parameters), the parameters and the optimizer
  state: the parameter \<open>step\<close>.
\<close>

type_synonym ('p, 'o) step_fn = "('p \<Rightarrow> error + tfloat) \<Rightarrow> 'p \<Rightarrow> 'o \<Rightarrow> 'p \<times> 'o"

definition loss_fn ::
  "('p, 's, 'a) evaluate_fn \<Rightarrow> real \<Rightarrow> ('s, 'a) batch \<Rightarrow> 'p \<Rightarrow> 'p \<Rightarrow> error + tfloat" where
  "loss_fn evaluate eps b p0 p =
     (case forward evaluate eps b p0 p of Inl e \<Rightarrow> Inl e | Inr (_, l) \<Rightarrow> Inr l)"

text \<open>
  One pass of the loop body: an exception of the forward pass leaves the loop, otherwise
  one optimizer step is applied. The advantages of the pass are returned with the state.
\<close>

definition epoch ::
  "('p, 's, 'a) evaluate_fn \<Rightarrow> ('p, 'o) step_fn \<Rightarrow> real \<Rightarrow> ('s, 'a) batch \<Rightarrow> 'p \<times> 'o
     \<Rightarrow> error + (('p \<times> 'o) \<times> tfloat list)" where
  "epoch evaluate step eps b s =
     (case forward evaluate eps b (fst s) (fst s) of
        Inl e \<Rightarrow> Inl e
      | Inr (advantages, _) \<Rightarrow>
          Inr (step (loss_fn evaluate eps b (fst s)) (fst s) (snd s), advantages))"

text \<open>
  \<^verbatim>\<open>for _ in range(K_epochs)\<close>: the result is the exception raised, if any, the parameters
  and the optimizer state reached, and the advantages of the passes made, in order.
\<close>

fun run_epochs ::
  "('p, 's, 'a) evaluate_fn \<Rightarrow> ('p, 'o) step_fn \<Rightarrow> real \<Rightarrow> ('s, 'a) batch \<Rightarrow> nat
     \<Rightarrow> 'p \<times> 'o \<Rightarrow> tfloat list list \<Rightarrow> error option \<times> ('p \<times> 'o) \<times> tfloat list list" where
  "run_epochs evaluate step eps b 0 s tr = (None, s, tr)"
| "run_epochs evaluate step eps b (Suc k) s tr =
     (case epoch evaluate step eps b s of
        Inl e \<Rightarrow> (Some e, s, tr)
      | Inr (s', advantages) \<Rightarrow> run_epochs evaluate step eps b k s' (tr @ [advantages]))"

text \<open>
  \<^verbatim>\<open>PPO.update\<close>. The result is the exception raised, if any, and the controller as the
  call leaves it: an exception before the loop leaves it untouched, one inside the loop
  keeps the optimizer steps made so far, and only a completed loop synchronises the old
  policy and clears Memory.
\<close>

definition update ::
  "('p, 's, 'a) evaluate_fn \<Rightarrow> ('p, 'o) step_fn \<Rightarrow> ('p, 'o, 's, 'a) ppo
     \<Rightarrow> error option \<times> ('p, 'o, 's, 'a) ppo" where
  "update evaluate step c =
     (case stacked_batch c of
        Inl e \<Rightarrow> (Some e, c)
      | Inr b \<Rightarrow>
          (case run_epochs evaluate step (eps_clip c) b (nat (K_epochs c))
                  (policy c, optimizer c) [] of
             (Some e, s, _) \<Rightarrow> (Some e, c\<lparr>policy := fst s, optimizer := snd s\<rparr>)
           | (None, s, _) \<Rightarrow>
               (None,
                c\<lparr>policy := fst s, optimizer := snd s,
                  policy_old := load_state_dict (policy_old c) (state_dict (fst s)),
                  memory := clear (memory c)\<rparr>)))"

text \<open>
  The parameters and the optimizer state after \<open>k\<close> optimizer steps of one update, in the
  words of the specification: each step is applied to the loss of the parameters it starts
  from. It is stated apart from the loop, to compare the loop with.
\<close>

fun after_steps ::
  "('p, 's, 'a) evaluate_fn \<Rightarrow> ('p, 'o) step_fn \<Rightarrow> real \<Rightarrow> ('s, 'a) batch \<Rightarrow> nat
     \<Rightarrow> 'p \<times> 'o \<Rightarrow> 'p \<times> 'o" where
  "after_steps evaluate step eps b 0 s = s"
| "after_steps evaluate step eps b (Suc k) s =
     after_steps evaluate step eps b k
       (step (loss_fn evaluate eps b (fst s)) (fst s) (snd s))"

section \<open>The recurrence of the discounted returns\<close>

text \<open>
  The returns as a recurrence over the transitions in chronological order:
  \<open>R\<^sub>i = r\<^sub>i + gamma * R\<^sub>i\<^sub>+\<^sub>1\<close>, where a terminal transition takes zero in place of
  \<open>R\<^sub>i\<^sub>+\<^sub>1\<close>, and \<open>d0\<close> stands after the last transition.
\<close>

fun returns_recurrence :: "real \<Rightarrow> (real \<times> bool) list \<Rightarrow> real \<Rightarrow> real list" where
  "returns_recurrence g [] d0 = []"
| "returns_recurrence g ((r, d) # ps) d0 =
     (let rest = returns_recurrence g ps d0;
          following = (case rest of [] \<Rightarrow> d0 | x # _ \<Rightarrow> x)
      in (r + g * (if d then 0 else following)) # rest)"



section \<open>A small instance\<close>

text \<open>
  A concrete network, optimizer and sampler, to run the controller on concrete rollouts:
  the parameter set is one real number, which \<open>constant_evaluate\<close> returns as the value of
  every state, and every optimizer step adds one to it.
\<close>

definition constant_evaluate :: "(real, nat, nat) evaluate_fn" where
  "constant_evaluate p sts acts =
     (map (\<lambda>_. Val 0) sts, map (\<lambda>_. Val p) sts, map (\<lambda>_. Val 0) sts)"

definition unit_step :: "(real, nat) step_fn" where
  "unit_step loss p n = (p + 1, Suc n)"

definition first_action :: "real \<Rightarrow> nat \<Rightarrow> nat \<Rightarrow> (nat tensor \<times> tfloat) \<times> nat" where
  "first_action p state g = ((\<lparr>shape = [1], elems = [0]\<rparr>, Val 0), Suc g)"

definition fresh_ppo :: "(real, nat, nat, nat) ppo" where
  "fresh_ppo = ppo_init 0 5 (\<lambda>_. 0) (99 / 100) 2 (1 / 5)"

definition rollout_ppo :: "(real, nat, nat, nat) ppo" where
  "rollout_ppo =
     fst (collect (act first_action) [Select 0, Outcome 1 True, Select 0, Outcome 1 True]
            (fresh_ppo, 0))"

definition single_ppo :: "(real, nat, nat, nat) ppo" where
  "single_ppo = fst (collect (act first_action) [Select 0, Outcome 1 True] (fresh_ppo, 0))"

definition mismatched_ppo :: "(real, nat, nat, nat) ppo" where
  "mismatched_ppo =
     fst (collect (act first_action) [Select 0, Outcome 1 True, Outcome 1 True] (fresh_ppo, 0))"

definition unpaired_ppo :: "(real, nat, nat, nat) ppo" where
  "unpaired_ppo =
     fst (collect (act first_action)
            [Select 0, Select 0, Outcome 1 True, Outcome 1 True, Outcome 1 True] (fresh_ppo, 0))"

section \<open>Properties of the return computation\<close>

lemma returns_recurrence_snoc:
  "returns_recurrence g (qs @ [(r, d)]) d0 =
     returns_recurrence g qs (r + g * (if d then 0 else d0)) @ [r + g * (if d then 0 else d0)]"
proof (induction qs)
  case Nil
  show ?case by simp
next
  case (Cons q qs)
  obtain r' d' where q: "q = (r', d')" by (cases q)
  show ?case
    using Cons.IH by (cases "returns_recurrence g qs (r + g * (if d then 0 else d0))")
      (simp_all add: q Let_def)
qed

lemma discount_loop_recurrence:
  "discount_loop g ps discounted acc = returns_recurrence g (rev ps) discounted @ acc"
proof (induction ps arbitrary: discounted acc)
  case Nil
  show ?case by simp
next
  case (Cons p ps)
  obtain r d where p: "p = (r, d)" by (cases p)
  show ?case
    by (simp add: p Let_def Cons.IH returns_recurrence_snoc)
qed

lemma length_returns_recurrence: "length (returns_recurrence g ps d0) = length ps"
  by (induction ps) (auto simp: Let_def)

lemma returns_recurrence_nth:
  "i < length ps \<Longrightarrow>
   returns_recurrence g ps d0 ! i =
     fst (ps ! i) + g * (if snd (ps ! i) then 0
                         else if Suc i < length ps then returns_recurrence g ps d0 ! Suc i else d0)"
proof (induction ps arbitrary: i)
  case Nil
  then show ?case by simp
next
  case (Cons p ps)
  obtain r d where p: "p = (r, d)" by (cases p)
  show ?case
  proof (cases i)
    case 0
    show ?thesis
    proof (cases "returns_recurrence g ps d0")
      case Nil
      then have "ps = []" using length_returns_recurrence [of g ps d0] by simp
      then show ?thesis by (simp add: p 0 Let_def)
    next
      case (Cons x xs)
      then have "ps \<noteq> []" by auto
      then show ?thesis using Cons by (simp add: p 0 Let_def nth_Cons')
    qed
  next
    case (Suc j)
    then have "j < length ps" using Cons.prems by simp
    from Cons.IH [OF this] show ?thesis by (simp add: p Suc Let_def)
  qed
qed

lemma discounted_returns_recurrence:
  "length rs = length ds \<Longrightarrow> discounted_returns g rs ds = returns_recurrence g (zip rs ds) 0"
  by (simp add: discounted_returns_def discount_loop_recurrence zip_rev)
lemma finite_vals_map_Val: "finite_vals (map Val xs) = Some xs"
  by (induction xs) simp_all

lemma tmean_map_Val:
  "tmean (map Val xs) = (if xs = [] then NaN else Val (sum_list xs / real (length xs)))"
  by (simp add: tmean_def finite_vals_map_Val)

lemma tstd_map_Val:
  "tstd (map Val xs) =
     (if length xs \<le> 1 then NaN
      else Val (sqrt (sum_list (map (\<lambda>x. (x - sum_list xs / real (length xs))\<^sup>2) xs)
                      / real (length xs - 1))))"
  by (simp add: tstd_def finite_vals_map_Val Let_def)

lemma normalize_returns_two_or_more:
  assumes "2 \<le> length xs"
  shows "normalize_returns (map Val xs) =
     map (\<lambda>x. Val ((x - sum_list xs / real (length xs))
                 / (sqrt (sum_list (map (\<lambda>x. (x - sum_list xs / real (length xs))\<^sup>2) xs)
                          / real (length xs - 1)) + 1 / 10 ^ 8))) xs"
proof -
  let ?sd = "sqrt (sum_list (map (\<lambda>x. (x - sum_list xs / real (length xs))\<^sup>2) xs)
                          / real (length xs - 1))"
  have "0 \<le> sum_list (map (\<lambda>x. (x - sum_list xs / real (length xs))\<^sup>2) xs)"
    by (rule sum_list_nonneg) auto
  then have "0 \<le> ?sd" by simp
  moreover have "(0::real) < 1 / 10 ^ 8" by simp
  ultimately have nz: "?sd + 1 / 10 ^ 8 \<noteq> 0" by linarith
  from assms have ne: "xs \<noteq> []" and gt: "\<not> length xs \<le> 1" by auto
  show ?thesis
    unfolding normalize_returns_def tmean_map_Val tstd_map_Val using ne gt nz by (simp add: comp_def)
qed

lemma normalize_returns_single: "normalize_returns [Val x] = [NaN]"
  by (simp add: normalize_returns_def tmean_def tstd_def)

lemma normalize_returns_constant:
  assumes "2 \<le> n"
  shows "normalize_returns (map Val (replicate n x)) = replicate n (Val 0)"
proof -
  have len: "2 \<le> length (replicate n x)" using assms by simp
  have n0: "real n \<noteq> 0" using assms by simp
  have mu: "sum_list (replicate n x) / real (length (replicate n x)) = x"
    using n0 by (simp add: sum_list_replicate)
  have "map (\<lambda>y. (y - x)\<^sup>2) (replicate n x) = replicate n 0" by simp
  then have ss: "sum_list (map (\<lambda>y. (y - x)\<^sup>2) (replicate n x)) = 0"
    by (simp add: sum_list_replicate)
  show ?thesis
    unfolding normalize_returns_two_or_more [OF len] mu ss by (simp add: map_replicate_const)
qed

lemma length_normalize_returns: "length (normalize_returns ts) = length ts"
  by (simp add: normalize_returns_def)
lemma rollout_ppo_eq:
  "rollout_ppo =
     \<lparr>gamma = 99 / 100, eps_clip = 1 / 5, K_epochs = 2, policy = 0, policy_old = 0,
      optimizer = 0,
      memory = \<lparr>states = [0, 0],
                actions = [\<lparr>shape = [1], elems = [0]\<rparr>, \<lparr>shape = [1], elems = [0]\<rparr>],
                logprobs = [Val 0, Val 0], rewards = [1, 1], is_terminals = [True, True]\<rparr>\<rparr>"
  by (simp add: rollout_ppo_def fresh_ppo_def ppo_init_def select_action_def act_def
      first_action_def append_outcome_def empty_memory_def load_state_dict_def state_dict_def)

text \<open>
  Claim C1. When the stored rewards and terminal flags have the same length \<open>n\<close>, the
  return computation gives \<open>n\<close> values in chronological order, the value of transition \<open>i\<close>
  being its reward plus \<open>gamma\<close> times the value of transition \<open>i + 1\<close>, where a terminal
  transition (and the last one) takes zero for that value; the result is these values minus
  their mean, divided by their standard deviation plus \<open>1e-8\<close>. Rewards \<open>[1, 1]\<close> with
  \<open>gamma = 0.99\<close> give \<open>[1.99, 1]\<close> for the terminals \<open>[False, True]\<close> and \<open>[1, 1]\<close> for
  \<open>[True, True]\<close>, before the normalization.
\<close>

theorem compute_returns_discounted_normalized:
  assumes "length (rewards (memory c)) = length (is_terminals (memory c))"
  shows "let rs = rewards (memory c); ds = is_terminals (memory c); n = length rs;
             R = discounted_returns (gamma c) rs ds;
             mu = sum_list R / real n;
             sd = sqrt (sum_list (map (\<lambda>x. (x - mu)\<^sup>2) R) / real (n - 1))
         in length R = n \<and> length (compute_returns c) = n \<and>
            (\<forall>i<n. R ! i = rs ! i + gamma c *
                 (if ds ! i then 0 else if Suc i < n then R ! Suc i else 0)) \<and>
            compute_returns c =
              map (\<lambda>x. fdiv (fsub (Val x) (tmean (map Val R)))
                            (fadd (tstd (map Val R)) (Val (1 / 10 ^ 8)))) R \<and>
            (2 \<le> n \<longrightarrow> compute_returns c = map (\<lambda>x. Val ((x - mu) / (sd + 1 / 10 ^ 8))) R) \<and>
            discounted_returns (99 / 100) [1, 1] [False, True] = [199 / 100, 1] \<and>
            discounted_returns (99 / 100) [1, 1] [True, True] = [1, 1]"
proof -
  let ?rs = "rewards (memory c)" and ?ds = "is_terminals (memory c)"
  let ?R = "discounted_returns (gamma c) ?rs ?ds"
  have R: "?R = returns_recurrence (gamma c) (zip ?rs ?ds) 0"
    using assms by (rule discounted_returns_recurrence)
  have len: "length ?R = length ?rs"
    using assms by (simp add: R length_returns_recurrence)
  have nth: "?R ! i = ?rs ! i + gamma c *
      (if ?ds ! i then 0 else if Suc i < length ?rs then ?R ! Suc i else 0)"
    if "i < length ?rs" for i
    using that assms returns_recurrence_nth [of i "zip ?rs ?ds" "gamma c" 0]
    by (simp add: R)
  have norm: "compute_returns c =
      map (\<lambda>x. fdiv (fsub (Val x) (tmean (map Val ?R)))
                    (fadd (tstd (map Val ?R)) (Val (1 / 10 ^ 8)))) ?R"
    by (simp add: compute_returns_def normalize_returns_def comp_def)
  have two: "compute_returns c =
      map (\<lambda>x. Val ((x - sum_list ?R / real (length ?rs))
         / (sqrt (sum_list (map (\<lambda>x. (x - sum_list ?R / real (length ?rs))\<^sup>2) ?R)
              / real (length ?rs - 1)) + 1 / 10 ^ 8))) ?R"
    if "2 \<le> length ?rs"
    using that normalize_returns_two_or_more [of ?R] by (simp add: compute_returns_def len)
  have ex1: "discounted_returns (99 / 100) [1, 1] [False, True] = [199 / 100, 1]"
    by (simp add: discounted_returns_def)
  have ex2: "discounted_returns (99 / 100) [1, 1] [True, True] = [1, 1]"
    by (simp add: discounted_returns_def)
  have lenc: "length (compute_returns c) = length ?rs"
    by (simp add: compute_returns_def length_normalize_returns len)
  show ?thesis
    unfolding Let_def using len lenc nth norm two ex1 ex2 by blast
qed

theorem compute_returns_discounted_normalized_witness:
  "length (rewards (memory rollout_ppo)) = length (is_terminals (memory rollout_ppo)) \<and>
   length (compute_returns rollout_ppo) = 2 \<and>
   discounted_returns (gamma rollout_ppo) (rewards (memory rollout_ppo))
     (is_terminals (memory rollout_ppo)) ! 0 = 1"
  using compute_returns_discounted_normalized [of rollout_ppo]
  by (simp add: rollout_ppo_eq Let_def)

text \<open>
  Claim C6, at the rollout of the repository's own update test (one transition): the sample
  standard deviation of one value is NaN, the stabilizing constant is added to NaN, and
  the normalized return is NaN.
\<close>

theorem compute_returns_single_transition_nan:
  "compute_returns (c\<lparr>memory := (memory c)\<lparr>rewards := [r], is_terminals := [d]\<rparr>\<rparr>) = [NaN]"
  by (simp add: compute_returns_def discounted_returns_def normalize_returns_single)

lemma compute_returns_single_ppo: "compute_returns single_ppo = [NaN]"
  by (simp add: single_ppo_def fresh_ppo_def ppo_init_def select_action_def act_def
      first_action_def append_outcome_def empty_memory_def compute_returns_def
      discounted_returns_def normalize_returns_single)

lemma compute_returns_constant:
  assumes "discounted_returns (gamma c) (rewards (memory c)) (is_terminals (memory c))
             = replicate n x" and "2 \<le> n"
  shows "compute_returns c = replicate n (Val 0)"
  using assms normalize_returns_constant [of n x] by (simp add: compute_returns_def)

section \<open>The clipped surrogate\<close>

text \<open>
  Claim C2, as the code has it. For a ratio \<open>r > 0\<close> and \<open>0 < eps < 1\<close> the surrogate term
  is at most \<open>(1 + eps) * a\<close> when the advantage \<open>a\<close> is positive and at most
  \<open>(1 - eps) * a\<close> when it is negative, where it equals \<open>(1 - eps) * a\<close> for every ratio
  up to \<open>1 - eps\<close>; at ratio 10, \<open>eps = 0.2\<close> and advantage 1 the term is 1.2.
\<close>

theorem surrogate_clipped_above:
  assumes "0 < r" and "0 < eps" and "eps < 1"
  shows "\<exists>t. surrogate eps (Val r) (Val a) = Val t \<and>
             (0 < a \<longrightarrow> t \<le> (1 + eps) * a) \<and>
             (a < 0 \<longrightarrow> t \<le> (1 - eps) * a) \<and>
             (a < 0 \<and> r \<le> 1 - eps \<longrightarrow> t = (1 - eps) * a) \<and>
             surrogate (1 / 5) (Val 10) (Val 1) = Val (6 / 5)"
proof -
  let ?c = "min (max r (1 - eps)) (1 + eps)"
  let ?t = "min (r * a) (?c * a)"
  have s: "surrogate eps (Val r) (Val a) = Val ?t"
    by (simp add: surrogate_def)
  have lo: "1 - eps \<le> ?c" and hi: "?c \<le> 1 + eps"
    using assms by auto
  have up: "?t \<le> (1 + eps) * a" if "0 < a"
  proof -
    have "?c * a \<le> (1 + eps) * a" using hi that by (simp add: mult_right_mono)
    then show ?thesis by linarith
  qed
  have dn: "?t \<le> (1 - eps) * a" if "a < 0"
  proof -
    have "?c * a \<le> (1 - eps) * a" using lo that by (simp add: mult_right_mono_neg)
    then show ?thesis by linarith
  qed
  have eq: "?t = (1 - eps) * a" if "a < 0" and "r \<le> 1 - eps"
  proof -
    have c: "?c = 1 - eps" using that assms by auto
    have "(1 - eps) * a \<le> r * a" using that by (simp add: mult_right_mono_neg)
    then show ?thesis unfolding c by linarith
  qed
  have ex: "surrogate (1 / 5) (Val 10) (Val 1) = Val (6 / 5)"
    by (simp add: surrogate_def)
  show ?thesis using s up dn eq ex by blast
qed

theorem surrogate_clipped_above_witness:
  "(0::real) < 10 \<and> (0::real) < 1 / 5 \<and> (1::real) / 5 < 1 \<and>
   (\<exists>t. surrogate (1 / 5) (Val 10) (Val (- 1)) = Val t \<and> t \<le> (1 - 1 / 5) * (- 1))"
  using surrogate_clipped_above [of 10 "1 / 5" "- 1"] by auto

text \<open>
  For a negative advantage the term has no lower bound in terms of \<open>eps\<close>: at ratio 10 and
  advantage \<open>-1\<close> it is \<open>-10\<close>, below \<open>(1 - eps) * a = -0.8\<close>.
\<close>

theorem surrogate_not_bounded_below:
  "surrogate (1 / 5) (Val 10) (Val (- 1)) = Val (- 10) \<and> (- 10 :: real) < (1 - 1 / 5) * (- 1)"
  by (simp add: surrogate_def)

section \<open>Action selection\<close>

text \<open>
  Claim C9. \<open>select_action\<close> returns the action of the old policy's \<open>act\<close> on the state and
  the shared Memory, whatever the current policy is, and leaves the current policy, the old
  policy, the optimizer state and the configuration as they were.
\<close>

theorem select_action_frame:
  "select_action act_old c state g =
     (fst (act_old (policy_old c) state (memory c) g),
      c\<lparr>memory := fst (snd (act_old (policy_old c) state (memory c) g))\<rparr>,
      snd (snd (act_old (policy_old c) state (memory c) g))) \<and>
   fst (select_action act_old (c\<lparr>policy := p'\<rparr>) state g) = fst (select_action act_old c state g) \<and>
   policy (fst (snd (select_action act_old c state g))) = policy c \<and>
   policy_old (fst (snd (select_action act_old c state g))) = policy_old c \<and>
   optimizer (fst (snd (select_action act_old c state g))) = optimizer c \<and>
   gamma (fst (snd (select_action act_old c state g))) = gamma c \<and>
   eps_clip (fst (snd (select_action act_old c state g))) = eps_clip c \<and>
   K_epochs (fst (snd (select_action act_old c state g))) = K_epochs c"
  by (simp add: select_action_def split: prod.splits)

section \<open>The small instance, evaluated\<close>

lemmas instance_defs =
  fresh_ppo_def ppo_init_def select_action_def act_def first_action_def append_outcome_def
  empty_memory_def load_state_dict_def state_dict_def

lemma fresh_ppo_eq:
  "fresh_ppo =
     \<lparr>gamma = 99 / 100, eps_clip = 1 / 5, K_epochs = 2, policy = 0, policy_old = 0,
      optimizer = 0,
      memory = \<lparr>states = [], actions = [], logprobs = [], rewards = [], is_terminals = []\<rparr>\<rparr>"
  by (simp add: instance_defs)

lemma single_ppo_eq:
  "single_ppo =
     \<lparr>gamma = 99 / 100, eps_clip = 1 / 5, K_epochs = 2, policy = 0, policy_old = 0,
      optimizer = 0,
      memory = \<lparr>states = [0], actions = [\<lparr>shape = [1], elems = [0]\<rparr>],
                logprobs = [Val 0], rewards = [1], is_terminals = [True]\<rparr>\<rparr>"
  by (simp add: single_ppo_def instance_defs)

lemma mismatched_ppo_eq:
  "mismatched_ppo =
     \<lparr>gamma = 99 / 100, eps_clip = 1 / 5, K_epochs = 2, policy = 0, policy_old = 0,
      optimizer = 0,
      memory = \<lparr>states = [0], actions = [\<lparr>shape = [1], elems = [0]\<rparr>],
                logprobs = [Val 0], rewards = [1, 1], is_terminals = [True, True]\<rparr>\<rparr>"
  by (simp add: mismatched_ppo_def instance_defs)

lemma unpaired_ppo_eq:
  "unpaired_ppo =
     \<lparr>gamma = 99 / 100, eps_clip = 1 / 5, K_epochs = 2, policy = 0, policy_old = 0,
      optimizer = 0,
      memory = \<lparr>states = [0, 0],
                actions = [\<lparr>shape = [1], elems = [0]\<rparr>, \<lparr>shape = [1], elems = [0]\<rparr>],
                logprobs = [Val 0, Val 0], rewards = [1, 1, 1],
                is_terminals = [True, True, True]\<rparr>\<rparr>"
  by (simp add: unpaired_ppo_def instance_defs)

lemma compute_returns_two_ones:
  assumes "rewards (memory c) = [1, 1]" and "is_terminals (memory c) = [True, True]"
  shows "compute_returns c = [Val 0, Val 0]"
proof -
  have "discounted_returns (gamma c) (rewards (memory c)) (is_terminals (memory c))
          = replicate 2 1"
    using assms by (simp add: discounted_returns_def numeral_2_eq_2)
  then have "compute_returns c = replicate 2 (Val 0)"
    by (rule compute_returns_constant) simp
  then show ?thesis by (simp add: numeral_2_eq_2)
qed

lemma stacked_batch_rollout:
  "stacked_batch rollout_ppo =
     Inr \<lparr>returns = [Val 0, Val 0], old_states = [0, 0],
          old_actions = \<lparr>shape = [2], elems = [0, 0]\<rparr>, old_logprobs = [Val 0, Val 0]\<rparr>"
proof -
  have "compute_returns rollout_ppo = [Val 0, Val 0]"
    by (rule compute_returns_two_ones) (simp_all add: rollout_ppo_eq)
  then show ?thesis
    by (simp add: stacked_batch_def rollout_ppo_eq cat0_def stack_def stack_scalars_def
        squeeze_def)
qed

lemma stacked_batch_mismatched:
  "stacked_batch mismatched_ppo =
     Inr \<lparr>returns = [Val 0, Val 0], old_states = [0],
          old_actions = \<lparr>shape = [], elems = [0]\<rparr>, old_logprobs = [Val 0]\<rparr>"
proof -
  have "compute_returns mismatched_ppo = [Val 0, Val 0]"
    by (rule compute_returns_two_ones) (simp_all add: mismatched_ppo_eq)
  then show ?thesis
    by (simp add: stacked_batch_def mismatched_ppo_eq cat0_def stack_def stack_scalars_def
        squeeze_def)
qed

lemma stacked_batch_single:
  "stacked_batch single_ppo =
     Inr \<lparr>returns = [NaN], old_states = [0],
          old_actions = \<lparr>shape = [], elems = [0]\<rparr>, old_logprobs = [Val 0]\<rparr>"
  using compute_returns_single_ppo
  by (simp add: stacked_batch_def single_ppo_eq cat0_def stack_def stack_scalars_def
      squeeze_def)

lemma epoch_rollout:
  "epoch constant_evaluate unit_step (1 / 5)
     \<lparr>returns = [Val 0, Val 0], old_states = [0, 0],
      old_actions = acts, old_logprobs = [Val 0, Val 0]\<rparr> (p, n)
   = Inr ((p + 1, Suc n), [Val (- p), Val (- p)])"
  by (simp add: epoch_def forward_def constant_evaluate_def unit_step_def broadcast2_def
      surrogate_def mse_def tmean_def Let_def)

lemma epoch_mismatched:
  "epoch constant_evaluate unit_step (1 / 5)
     \<lparr>returns = [Val 0, Val 0], old_states = [0],
      old_actions = acts, old_logprobs = [Val 0]\<rparr> (p, n)
   = Inr ((p + 1, Suc n), [Val (- p), Val (- p)])"
  by (simp add: epoch_def forward_def constant_evaluate_def unit_step_def broadcast2_def
      surrogate_def mse_def tmean_def Let_def)

lemma run_epochs_rollout:
  "run_epochs constant_evaluate unit_step (1 / 5)
     \<lparr>returns = [Val 0, Val 0], old_states = [0, 0],
      old_actions = acts, old_logprobs = [Val 0, Val 0]\<rparr>
     (Suc (Suc 0)) (0, 0) []
   = (None, (2, Suc (Suc 0)), [[Val 0, Val 0], [Val (- 1), Val (- 1)]])"
  by (simp add: epoch_rollout)

lemma run_epochs_mismatched:
  "run_epochs constant_evaluate unit_step (1 / 5)
     \<lparr>returns = [Val 0, Val 0], old_states = [0],
      old_actions = acts, old_logprobs = [Val 0]\<rparr>
     (Suc (Suc 0)) (0, 0) []
   = (None, (2, Suc (Suc 0)), [[Val 0, Val 0], [Val (- 1), Val (- 1)]])"
  by (simp add: epoch_mismatched)

lemma update_rollout:
  "update constant_evaluate unit_step rollout_ppo =
     (None, \<lparr>gamma = 99 / 100, eps_clip = 1 / 5, K_epochs = 2, policy = 2, policy_old = 2,
      optimizer = 2,
      memory = \<lparr>states = [], actions = [], logprobs = [], rewards = [], is_terminals = []\<rparr>\<rparr>)"
proof -
  have k: "nat (K_epochs rollout_ppo) = Suc (Suc 0)" and e: "eps_clip rollout_ppo = 1 / 5"
    and s: "(policy rollout_ppo, optimizer rollout_ppo) = (0, 0)"
    by (simp_all add: rollout_ppo_eq)
  show ?thesis
    unfolding update_def stacked_batch_rollout k e s sum.case run_epochs_rollout
    by (simp add: rollout_ppo_eq clear_def load_state_dict_def state_dict_def)
qed

lemma update_mismatched:
  "update constant_evaluate unit_step mismatched_ppo =
     (None, \<lparr>gamma = 99 / 100, eps_clip = 1 / 5, K_epochs = 2, policy = 2, policy_old = 2,
      optimizer = 2,
      memory = \<lparr>states = [], actions = [], logprobs = [], rewards = [], is_terminals = []\<rparr>\<rparr>)"
proof -
  have k: "nat (K_epochs mismatched_ppo) = Suc (Suc 0)" and e: "eps_clip mismatched_ppo = 1 / 5"
    and s: "(policy mismatched_ppo, optimizer mismatched_ppo) = (0, 0)"
    by (simp_all add: mismatched_ppo_eq)
  show ?thesis
    unfolding update_def stacked_batch_mismatched k e s sum.case run_epochs_mismatched
    by (simp add: mismatched_ppo_eq clear_def load_state_dict_def state_dict_def)
qed

section \<open>Properties of the update\<close>

lemma forward_advantages:
  assumes "forward evaluate eps b p0 p = Inr (adv, l)"
  shows "broadcast2 fsub (returns b)
           (fst (snd (evaluate p0 (old_states b) (old_actions b)))) = Inr adv"
  using assms
  by (auto simp: forward_def Let_def split: prod.splits sum.splits)

lemma epoch_advantages:
  assumes "epoch evaluate step eps b s = Inr (s', adv)"
  shows "broadcast2 fsub (returns b)
           (fst (snd (evaluate (fst s) (old_states b) (old_actions b)))) = Inr adv"
  using assms forward_advantages [of evaluate eps b "fst s" "fst s"]
  by (auto simp: epoch_def split: sum.splits prod.splits)

lemma epoch_state:
  assumes "epoch evaluate step eps b s = Inr (s', adv)"
  shows "s' = step (loss_fn evaluate eps b (fst s)) (fst s) (snd s)"
  using assms by (auto simp: epoch_def split: sum.splits prod.splits)

lemma run_epochs_steps:
  assumes "run_epochs evaluate step eps b K s tr = (None, s', tr')"
  shows "s' = after_steps evaluate step eps b K s \<and>
         (\<exists>advs. tr' = tr @ advs \<and> length advs = K \<and>
           (\<forall>k<K. run_epochs evaluate step eps b k s tr
                     = (None, after_steps evaluate step eps b k s, tr @ take k advs) \<and>
                   broadcast2 fsub (returns b)
                     (fst (snd (evaluate (fst (after_steps evaluate step eps b k s))
                                  (old_states b) (old_actions b))))
                   = Inr (advs ! k)))"
  using assms
proof (induction K arbitrary: s tr)
  case 0
  then show ?case by simp
next
  case (Suc K)
  from Suc.prems obtain s1 adv where
    ep: "epoch evaluate step eps b s = Inr (s1, adv)" and
    rest: "run_epochs evaluate step eps b K s1 (tr @ [adv]) = (None, s', tr')"
    by (auto split: sum.splits prod.splits)
  have s1: "s1 = step (loss_fn evaluate eps b (fst s)) (fst s) (snd s)"
    using ep by (rule epoch_state)
  from Suc.IH [OF rest] obtain advs where
    fin: "s' = after_steps evaluate step eps b K s1" and
    tr': "tr' = (tr @ [adv]) @ advs" and len: "length advs = K" and
    steps: "\<forall>k<K. run_epochs evaluate step eps b k s1 (tr @ [adv])
                      = (None, after_steps evaluate step eps b k s1, (tr @ [adv]) @ take k advs) \<and>
                   broadcast2 fsub (returns b)
                     (fst (snd (evaluate (fst (after_steps evaluate step eps b k s1))
                                  (old_states b) (old_actions b))))
                   = Inr (advs ! k)"
    by blast
  have "run_epochs evaluate step eps b k s tr
          = (None, after_steps evaluate step eps b k s, tr @ take k (adv # advs)) \<and>
        broadcast2 fsub (returns b)
          (fst (snd (evaluate (fst (after_steps evaluate step eps b k s))
                       (old_states b) (old_actions b))))
        = Inr ((adv # advs) ! k)"
    if "k < Suc K" for k
  proof (cases k)
    case 0
    then show ?thesis using epoch_advantages [OF ep] by simp
  next
    case (Suc j)
    then have "j < K" using that by simp
    with steps have
      "run_epochs evaluate step eps b j s1 (tr @ [adv])
         = (None, after_steps evaluate step eps b j s1, (tr @ [adv]) @ take j advs)"
      "broadcast2 fsub (returns b)
         (fst (snd (evaluate (fst (after_steps evaluate step eps b j s1))
                      (old_states b) (old_actions b)))) = Inr (advs ! j)"
      by blast+
    then show ?thesis using ep s1 by (simp add: Suc)
  qed
  then have "\<exists>advs'. tr' = tr @ advs' \<and> length advs' = Suc K \<and>
      (\<forall>k<Suc K. run_epochs evaluate step eps b k s tr
                     = (None, after_steps evaluate step eps b k s, tr @ take k advs') \<and>
                   broadcast2 fsub (returns b)
                     (fst (snd (evaluate (fst (after_steps evaluate step eps b k s))
                                  (old_states b) (old_actions b))))
                   = Inr (advs' ! k))"
    using tr' len by (intro exI [of _ "adv # advs"]) simp
  moreover have "s' = after_steps evaluate step eps b (Suc K) s"
    using fin s1 by simp
  ultimately show ?case by blast
qed

lemma update_completes:
  assumes "fst (update evaluate step c) = None"
  shows "\<exists>b s tr. stacked_batch c = Inr b \<and>
           run_epochs evaluate step (eps_clip c) b (nat (K_epochs c)) (policy c, optimizer c) []
             = (None, s, tr) \<and>
           update evaluate step c =
             (None, c\<lparr>policy := fst s, optimizer := snd s,
                      policy_old := load_state_dict (policy_old c) (state_dict (fst s)),
                      memory := clear (memory c)\<rparr>)"
  using assms
  by (auto simp: update_def split: sum.splits prod.splits option.splits)

lemma stacked_batch_returns:
  "stacked_batch c = Inr b \<Longrightarrow> returns b = compute_returns c"
  by (auto simp: stacked_batch_def Let_def split: sum.splits)

text \<open>
  Within one epoch the advantages are constants of the loss: they do not depend on the
  parameters the gradient is taken at.
\<close>

lemma forward_advantages_detached:
  assumes "forward evaluate eps b p0 p = Inr (adv, l)"
    and "forward evaluate eps b p0 p' = Inr (adv', l')"
  shows "adv = adv'"
  using forward_advantages [OF assms(1)] forward_advantages [OF assms(2)] by simp

text \<open>
  Claim C3. When \<open>update\<close> completes, its loop has applied one optimizer step per epoch,
  each to the loss of the parameters the epoch started from, and the advantages of the
  \<open>k\<close>-th pass (counted from 0) are the normalized returns minus the state values that
  \<open>evaluate\<close> gives at the parameters reached after \<open>k\<close> of these steps. Within the pass
  they are constants of the loss: whatever parameters the loss is evaluated at, its
  advantages are those of the pass.
\<close>

theorem update_advantages_use_current_values:
  assumes "fst (update evaluate step c) = None"
  shows "\<exists>b tr. stacked_batch c = Inr b \<and> returns b = compute_returns c \<and>
           run_epochs evaluate step (eps_clip c) b (nat (K_epochs c)) (policy c, optimizer c) []
             = (None,
                after_steps evaluate step (eps_clip c) b (nat (K_epochs c))
                  (policy c, optimizer c),
                tr) \<and>
           policy (snd (update evaluate step c))
             = fst (after_steps evaluate step (eps_clip c) b (nat (K_epochs c))
                      (policy c, optimizer c)) \<and>
           length tr = nat (K_epochs c) \<and>
           (\<forall>k<nat (K_epochs c).
               run_epochs evaluate step (eps_clip c) b k (policy c, optimizer c) []
                 = (None, after_steps evaluate step (eps_clip c) b k (policy c, optimizer c),
                    take k tr) \<and>
               broadcast2 fsub (compute_returns c)
                 (fst (snd (evaluate
                   (fst (after_steps evaluate step (eps_clip c) b k (policy c, optimizer c)))
                   (old_states b) (old_actions b)))) = Inr (tr ! k) \<and>
               (\<forall>p adv l.
                  forward evaluate (eps_clip c) b
                    (fst (after_steps evaluate step (eps_clip c) b k (policy c, optimizer c))) p
                    = Inr (adv, l) \<longrightarrow> adv = tr ! k))"
proof -
  let ?K = "nat (K_epochs c)" and ?s0 = "(policy c, optimizer c)"
  from update_completes [OF assms] obtain b s tr where
    b: "stacked_batch c = Inr b" and
    run: "run_epochs evaluate step (eps_clip c) b ?K ?s0 [] = (None, s, tr)" and
    upd: "update evaluate step c =
             (None, c\<lparr>policy := fst s, optimizer := snd s,
                      policy_old := load_state_dict (policy_old c) (state_dict (fst s)),
                      memory := clear (memory c)\<rparr>)"
    by blast
  have ret: "returns b = compute_returns c" using b by (rule stacked_batch_returns)
  from run_epochs_steps [OF run] obtain advs where
    fin: "s = after_steps evaluate step (eps_clip c) b ?K ?s0" and
    tr: "tr = [] @ advs" and len: "length advs = ?K" and
    steps: "\<forall>k<?K.
        run_epochs evaluate step (eps_clip c) b k ?s0 []
          = (None, after_steps evaluate step (eps_clip c) b k ?s0, [] @ take k advs) \<and>
        broadcast2 fsub (returns b)
          (fst (snd (evaluate (fst (after_steps evaluate step (eps_clip c) b k ?s0))
                       (old_states b) (old_actions b)))) = Inr (advs ! k)"
    by blast
  have pol: "policy (snd (update evaluate step c))
               = fst (after_steps evaluate step (eps_clip c) b ?K ?s0)"
    using upd fin by simp
  have each: "run_epochs evaluate step (eps_clip c) b k ?s0 []
                 = (None, after_steps evaluate step (eps_clip c) b k ?s0, take k tr) \<and>
               broadcast2 fsub (compute_returns c)
                 (fst (snd (evaluate (fst (after_steps evaluate step (eps_clip c) b k ?s0))
                   (old_states b) (old_actions b)))) = Inr (tr ! k) \<and>
               (\<forall>p adv l.
                  forward evaluate (eps_clip c) b
                    (fst (after_steps evaluate step (eps_clip c) b k ?s0)) p
                    = Inr (adv, l) \<longrightarrow> adv = tr ! k)"
    if "k < ?K" for k
  proof -
    from steps that have
      r: "run_epochs evaluate step (eps_clip c) b k ?s0 []
          = (None, after_steps evaluate step (eps_clip c) b k ?s0, [] @ take k advs)" and
      a: "broadcast2 fsub (returns b)
          (fst (snd (evaluate (fst (after_steps evaluate step (eps_clip c) b k ?s0))
                       (old_states b) (old_actions b)))) = Inr (advs ! k)"
      by blast+
    have "adv = advs ! k"
      if "forward evaluate (eps_clip c) b
            (fst (after_steps evaluate step (eps_clip c) b k ?s0)) p = Inr (adv, l)"
      for p adv l
      using forward_advantages [OF that] a by simp
    then show ?thesis using r a tr ret by auto
  qed
  show ?thesis
    using b ret run fin pol tr len each by (intro exI [of _ b] exI [of _ tr]) simp
qed

theorem update_advantages_use_current_values_witness:
  "fst (update constant_evaluate unit_step rollout_ppo) = None \<and>
   (\<exists>b tr. stacked_batch rollout_ppo = Inr b \<and>
      run_epochs constant_evaluate unit_step (eps_clip rollout_ppo) b
        (nat (K_epochs rollout_ppo)) (policy rollout_ppo, optimizer rollout_ppo) []
        = (None, (2, 2), tr) \<and>
      after_steps constant_evaluate unit_step (eps_clip rollout_ppo) b 0
        (policy rollout_ppo, optimizer rollout_ppo) = (0, 0) \<and>
      after_steps constant_evaluate unit_step (eps_clip rollout_ppo) b 1
        (policy rollout_ppo, optimizer rollout_ppo) = (1, 1) \<and>
      tr = [[Val 0, Val 0], [Val (- 1), Val (- 1)]])"
proof -
  have h: "fst (update constant_evaluate unit_step rollout_ppo) = None"
    by (simp add: update_rollout)
  have k: "nat (K_epochs rollout_ppo) = Suc (Suc 0)" and e: "eps_clip rollout_ppo = 1 / 5"
    and s: "(policy rollout_ppo, optimizer rollout_ppo) = (0, 0)"
    by (simp_all add: rollout_ppo_eq)
  from update_advantages_use_current_values [OF h] obtain b tr where
    b: "stacked_batch rollout_ppo = Inr b" and
    run: "run_epochs constant_evaluate unit_step (eps_clip rollout_ppo) b
            (nat (K_epochs rollout_ppo)) (policy rollout_ppo, optimizer rollout_ppo) []
          = (None,
             after_steps constant_evaluate unit_step (eps_clip rollout_ppo) b
               (nat (K_epochs rollout_ppo)) (policy rollout_ppo, optimizer rollout_ppo),
             tr)"
    by blast
  have beq: "b = \<lparr>returns = [Val 0, Val 0], old_states = [0, 0],
          old_actions = \<lparr>shape = [2], elems = [0, 0]\<rparr>, old_logprobs = [Val 0, Val 0]\<rparr>"
    using b stacked_batch_rollout by simp
  have fin: "after_steps constant_evaluate unit_step (eps_clip rollout_ppo) b
               (nat (K_epochs rollout_ppo)) (policy rollout_ppo, optimizer rollout_ppo) = (2, 2)"
    and treq: "tr = [[Val 0, Val 0], [Val (- 1), Val (- 1)]]"
    using run unfolding beq k e s run_epochs_rollout by (simp_all add: unit_step_def)
  have a0: "after_steps constant_evaluate unit_step (eps_clip rollout_ppo) b 0
        (policy rollout_ppo, optimizer rollout_ppo) = (0, 0)"
    by (simp add: s)
  have a1: "after_steps constant_evaluate unit_step (eps_clip rollout_ppo) b 1
        (policy rollout_ppo, optimizer rollout_ppo) = (1, 1)"
    by (simp add: s unit_step_def)
  show ?thesis using h b run fin treq a0 a1 by auto
qed

text \<open>
  Claim C5. When \<open>update\<close> completes, Memory holds no transition: each of its five
  sequences is empty.
\<close>

theorem update_clears_memory:
  assumes "fst (update evaluate step c) = None"
  shows "memory (snd (update evaluate step c)) = empty_memory \<and>
         states (memory (snd (update evaluate step c))) = [] \<and>
         actions (memory (snd (update evaluate step c))) = [] \<and>
         logprobs (memory (snd (update evaluate step c))) = [] \<and>
         rewards (memory (snd (update evaluate step c))) = [] \<and>
         is_terminals (memory (snd (update evaluate step c))) = []"
proof -
  from update_completes [OF assms] obtain s where
    "update evaluate step c =
       (None, c\<lparr>policy := fst s, optimizer := snd s,
                policy_old := load_state_dict (policy_old c) (state_dict (fst s)),
                memory := clear (memory c)\<rparr>)"
    by blast
  then show ?thesis by (simp add: clear_def empty_memory_def)
qed

theorem update_clears_memory_witness:
  "fst (update constant_evaluate unit_step rollout_ppo) = None \<and>
   states (memory rollout_ppo) = [0, 0] \<and>
   memory (snd (update constant_evaluate unit_step rollout_ppo)) = empty_memory"
proof -
  have h: "fst (update constant_evaluate unit_step rollout_ppo) = None"
    by (simp add: update_rollout)
  have m: "states (memory rollout_ppo) = [0, 0]"
    by (simp add: rollout_ppo_eq)
  from update_clears_memory [OF h] show ?thesis using h m by simp
qed

lemma collect_policy_old:
  "policy_old (fst (collect act_old steps (c, g))) = policy_old c"
proof (induction steps arbitrary: c g)
  case Nil
  show ?case by simp
next
  case (Cons st steps)
  show ?case
  proof (cases st)
    case (Select state)
    then show ?thesis
      using Cons.IH by (simp add: select_action_def split: prod.splits)
  next
    case (Outcome r d)
    then show ?thesis using Cons.IH by (simp add: append_outcome_def)
  qed
qed

lemma update_raises_policy_old:
  assumes "fst (update evaluate step c) \<noteq> None"
  shows "policy_old (snd (update evaluate step c)) = policy_old c"
  using assms by (auto simp: update_def split: sum.splits prod.splits option.splits)

text \<open>
  Claim C4. The constructor leaves the old policy equal to the current one, a completed
  \<open>update\<close> leaves it equal to the current policy as updated, and the collecting steps
  between two updates (action selection and the driver's appends) do not change it.
\<close>

theorem policy_old_synchronised:
  "policy_old (ppo_init fresh fresh_old make_optimizer discount K eps
                 :: ('p, 'o, 's, 'a) ppo)
     = policy (ppo_init fresh fresh_old make_optimizer discount K eps :: ('p, 'o, 's, 'a) ppo) \<and>
   (fst (update evaluate step c) = None \<longrightarrow>
      policy_old (snd (update evaluate step c)) = policy (snd (update evaluate step c))) \<and>
   policy_old (fst (collect act_old steps (c, g))) = policy_old c"
proof -
  have "policy_old (snd (update evaluate step c)) = policy (snd (update evaluate step c))"
    if "fst (update evaluate step c) = None"
  proof -
    from update_completes [OF that] obtain s where
      "update evaluate step c =
         (None, c\<lparr>policy := fst s, optimizer := snd s,
                  policy_old := load_state_dict (policy_old c) (state_dict (fst s)),
                  memory := clear (memory c)\<rparr>)"
      by blast
    then show ?thesis by (simp add: load_state_dict_def state_dict_def)
  qed
  then show ?thesis
    by (simp add: collect_policy_old ppo_init_def load_state_dict_def state_dict_def)
qed

theorem policy_old_synchronised_witness:
  "fst (update constant_evaluate unit_step rollout_ppo) = None \<and>
   policy_old rollout_ppo = 0 \<and>
   policy_old (snd (update constant_evaluate unit_step rollout_ppo)) = 2 \<and>
   policy (snd (update constant_evaluate unit_step rollout_ppo)) = 2"
proof -
  have h: "fst (update constant_evaluate unit_step rollout_ppo) = None"
    by (simp add: update_rollout)
  have p: "policy (snd (update constant_evaluate unit_step rollout_ppo)) = 2"
    by (simp add: update_rollout)
  have q: "policy_old rollout_ppo = 0"
    by (simp add: rollout_ppo_eq)
  from policy_old_synchronised [where evaluate = constant_evaluate and step = unit_step
      and c = rollout_ppo and fresh = 0 and fresh_old = 0 and make_optimizer = "\<lambda>_. 0"
      and discount = 0 and K = 0 and eps = 0 and act_old = "act first_action"
      and steps = "[]" and g = "0::nat"]
  have "policy_old (snd (update constant_evaluate unit_step rollout_ppo)) = 2"
    using h p by (elim conjE) simp
  then show ?thesis using h p q by simp
qed

text \<open>
  Claim C7. \<open>update\<close> on a Memory without stored states raises the error of
  \<^verbatim>\<open>torch.cat\<close> on an empty list and leaves the controller as it was: no optimizer step
  has been applied.
\<close>

theorem update_empty_memory_raises:
  assumes "states (memory c) = []"
  shows "update evaluate step c = (Some EmptyTensorList, c)"
  using assms by (simp add: update_def stacked_batch_def cat0_def)

theorem update_empty_memory_raises_witness:
  "states (memory fresh_ppo) = [] \<and>
   update constant_evaluate unit_step fresh_ppo = (Some EmptyTensorList, fresh_ppo)"
proof -
  have h: "states (memory (fresh_ppo :: (real, nat, nat, nat) ppo)) = []"
    by (simp add: fresh_ppo_eq)
  from update_empty_memory_raises [OF h] show ?thesis using h by simp
qed

text \<open>
  Claim C8, as stated, fails: \<open>update\<close> has no length check. With one stored state,
  action and log-probability and two stored rewards and terminal flags, the value of the
  one state is broadcast over the two returns, and \<open>update\<close> completes with its optimizer
  steps applied.
\<close>

theorem update_length_mismatch_silent:
  "length (states (memory mismatched_ppo)) = 1 \<and>
   length (actions (memory mismatched_ppo)) = 1 \<and>
   length (logprobs (memory mismatched_ppo)) = 1 \<and>
   length (rewards (memory mismatched_ppo)) = 2 \<and>
   length (is_terminals (memory mismatched_ppo)) = 2 \<and>
   fst (update constant_evaluate unit_step mismatched_ppo) = None \<and>
   policy mismatched_ppo = 0 \<and>
   policy (snd (update constant_evaluate unit_step mismatched_ppo)) = 2"
  by (simp add: update_mismatched) (simp add: mismatched_ppo_eq)

lemma stacked_batch_states:
  "stacked_batch c = Inr b \<Longrightarrow> old_states b = states (memory c)"
  by (auto simp: stacked_batch_def cat0_def Let_def split: sum.splits if_splits)

lemma broadcast2_mismatch:
  "length xs \<noteq> length ys \<Longrightarrow> length xs \<noteq> 1 \<Longrightarrow> length ys \<noteq> 1 \<Longrightarrow>
   broadcast2 f xs ys = Inl BroadcastMismatch"
  by (simp add: broadcast2_def)

lemma length_discount_loop:
  "length (discount_loop g ps discounted acc) = length ps + length acc"
  by (induction ps arbitrary: discounted acc) (auto simp: Let_def)

lemma length_compute_returns:
  "length (compute_returns c) =
     min (length (rewards (memory c))) (length (is_terminals (memory c)))"
  by (simp add: compute_returns_def length_normalize_returns discounted_returns_def
      length_discount_loop)

text \<open>
  Claim C8, as the code has it. When the rewards and terminal flags have length \<open>k\<close>, the
  stored states have length \<open>n\<close> different from \<open>k\<close>, and either no state is stored or
  neither \<open>k\<close> nor \<open>n\<close> is 1, at least one epoch is configured and \<open>evaluate\<close> returns
  one value per state, \<open>update\<close> raises before any optimizer step and leaves the controller
  as it was.
\<close>

theorem update_length_mismatch_raises:
  assumes "length (rewards (memory c)) = k" and "length (is_terminals (memory c)) = k"
    and "length (states (memory c)) = n"
    and "k \<noteq> n" and "n = 0 \<or> (k \<noteq> 1 \<and> n \<noteq> 1)" and "0 < K_epochs c"
    and "\<forall>p sts acts. length (fst (snd (evaluate p sts acts))) = length sts"
  shows "fst (update evaluate step c) \<noteq> None \<and> snd (update evaluate step c) = c"
proof (cases "stacked_batch c")
  case (Inl e)
  then show ?thesis by (simp add: update_def)
next
  case (Inr b)
  have n0: "n \<noteq> 0"
    using Inr assms(3) by (auto simp: stacked_batch_def cat0_def Let_def)
  have lr: "length (returns b) = k"
    using stacked_batch_returns [OF Inr] assms(1,2) by (simp add: length_compute_returns)
  have lv: "length (fst (snd (evaluate (policy c) (old_states b) (old_actions b)))) = n"
    using assms(3,7) stacked_batch_states [OF Inr] by simp
  have adv: "broadcast2 fsub (returns b)
      (fst (snd (evaluate (policy c) (old_states b) (old_actions b)))) = Inl BroadcastMismatch"
    using lr lv assms(4,5) n0 by (simp add: broadcast2_mismatch)
  have "\<exists>e. forward evaluate (eps_clip c) b (policy c) (policy c) = Inl e"
    using adv by (auto simp: forward_def Let_def split: prod.splits sum.splits)
  then obtain e where "epoch evaluate step (eps_clip c) b (policy c, optimizer c) = Inl e"
    by (auto simp: epoch_def)
  moreover obtain j where "nat (K_epochs c) = Suc j"
    using assms(6) by (cases "nat (K_epochs c)") auto
  ultimately show ?thesis using Inr by (simp add: update_def)
qed

theorem update_length_mismatch_raises_witness:
  "length (rewards (memory unpaired_ppo)) = 3 \<and>
   length (is_terminals (memory unpaired_ppo)) = 3 \<and>
   length (states (memory unpaired_ppo)) = 2 \<and>
   0 < K_epochs unpaired_ppo \<and>
   fst (update constant_evaluate unit_step unpaired_ppo) \<noteq> None \<and>
   snd (update constant_evaluate unit_step unpaired_ppo) = unpaired_ppo"
proof -
  have h: "length (rewards (memory unpaired_ppo)) = 3"
    "length (is_terminals (memory unpaired_ppo)) = 3"
    "length (states (memory unpaired_ppo)) = 2"
    "0 < K_epochs unpaired_ppo"
    by (simp_all add: unpaired_ppo_eq)
  have ev: "\<forall>p sts acts. length (fst (snd (constant_evaluate p sts acts))) = length sts"
    by (simp add: constant_evaluate_def)
  from update_length_mismatch_raises [OF h(1) h(2) h(3) _ _ h(4) ev, of unit_step]
  show ?thesis using h by simp
qed

text \<open>
  Claim C10. When every stored action is a single index (all dimensions of its shape are
  1), the action batch handed to \<open>evaluate\<close> is zero-dimensional for a rollout of one
  transition and one-dimensional of length \<open>n\<close> for a rollout of \<open>n \<ge> 2\<close> transitions.
\<close>

theorem old_actions_squeezed_shape:
  assumes "stacked_batch c = Inr b"
    and "list_all (\<lambda>t. list_all (\<lambda>d. d = 1) (shape t)) (actions (memory c))"
  shows "let n = length (actions (memory c))
         in (n = 1 \<longrightarrow> shape (old_actions b) = []) \<and>
            (2 \<le> n \<longrightarrow> shape (old_actions b) = [n])"
proof -
  from assms(1) obtain t ts where
    acts: "actions (memory c) = t # ts" and
    b: "old_actions b = squeeze \<lparr>shape = length (t # ts) # shape t,
                                 elems = concat (map elems (t # ts))\<rparr>"
    by (auto simp: stacked_batch_def stack_def Let_def split: sum.splits list.splits if_splits)
  have "list_all (\<lambda>d. d = 1) (shape t)" using assms(2) acts by simp
  then have f: "filter (\<lambda>d. d \<noteq> 1) (shape t) = []"
    by (simp add: list_all_iff filter_empty_conv)
  show ?thesis
    using f by (simp add: Let_def acts b squeeze_def)
qed

theorem old_actions_squeezed_shape_witness:
  "stacked_batch single_ppo =
     Inr \<lparr>returns = [NaN], old_states = [0],
          old_actions = \<lparr>shape = [], elems = [0]\<rparr>, old_logprobs = [Val 0]\<rparr> \<and>
   list_all (\<lambda>t. list_all (\<lambda>d. d = 1) (shape t)) (actions (memory single_ppo)) \<and>
   length (actions (memory single_ppo)) = 1 \<and>
   list_all (\<lambda>t. list_all (\<lambda>d. d = 1) (shape t)) (actions (memory rollout_ppo)) \<and>
   length (actions (memory rollout_ppo)) = 2 \<and>
   (\<exists>b. stacked_batch rollout_ppo = Inr b \<and> shape (old_actions b) = [2])"
proof -
  have a1: "list_all (\<lambda>t. list_all (\<lambda>d. d = 1) (shape t)) (actions (memory single_ppo))"
    and l1: "length (actions (memory single_ppo)) = 1"
    by (simp_all add: single_ppo_eq)
  have a2: "list_all (\<lambda>t. list_all (\<lambda>d. d = 1) (shape t)) (actions (memory rollout_ppo))"
    and l2: "length (actions (memory rollout_ppo)) = 2"
    by (simp_all add: rollout_ppo_eq)
  from old_actions_squeezed_shape [OF stacked_batch_single a1]
    old_actions_squeezed_shape [OF stacked_batch_rollout a2]
  show ?thesis using stacked_batch_single stacked_batch_rollout a1 l1 a2 l2
    by (simp add: Let_def)
qed

end
